theory Spec2Isabelle
  imports Complex_Main "HOL-Library.AList"
begin

section \<open>JavaScript values used by the datagrid and the legend code\<close>

text \<open>
  Primitive JavaScript values. Numbers are idealised as integers here (no NaN, no
  fractions); \<open>===\<close> on two primitives is then HOL equality.
\<close>

datatype prim = PUndefined | PNull | PBool bool | PNum int | PStr string

text \<open>\<open>!!v\<close> on a primitive.\<close>

fun truthy_prim :: "prim \<Rightarrow> bool" where
  "truthy_prim PUndefined = False"
| "truthy_prim PNull = False"
| "truthy_prim (PBool b) = b"
| "truthy_prim (PNum n) = (n \<noteq> 0)"
| "truthy_prim (PStr s) = (s \<noteq> [])"

text \<open>
  \<open>xs[i]\<close> on a JavaScript array: \<open>undefined\<close> (here \<open>None\<close>) when the index is
  \<open>undefined\<close>/\<open>NaN\<close>, negative or beyond the end; no exception is raised.
\<close>

definition js_index :: "'a list \<Rightarrow> int option \<Rightarrow> 'a option" where
  "js_index xs i =
     (case i of
        None \<Rightarrow> None
      | Some k \<Rightarrow> if 0 \<le> k \<and> k < int (length xs) then Some (xs ! nat k) else None)"

text \<open>\<open>v >= 0\<close> where \<open>v\<close> is a number or \<open>undefined\<close> (\<open>undefined >= 0\<close> is false).\<close>

definition js_ge0 :: "int option \<Rightarrow> bool" where
  "js_ge0 v = (case v of None \<Rightarrow> False | Some k \<Rightarrow> 0 \<le> k)"

section \<open>Legend dragging: \<open>enforceContainerBoundaries\<close>\<close>

text \<open>
  A \<open>DOMRect\<close> as returned by \<open>getBoundingClientRect\<close>, reduced to the four edges the
  code reads. Coordinates and offsets are real numbers with exact arithmetic.
\<close>

record rect =
  rect_top :: real
  rect_right :: real
  rect_bottom :: real
  rect_left :: real

datatype edge = EdgeRight | EdgeLeft | EdgeTop | EdgeBottom

datatype dimension = DimX | DimY

text \<open>\<open>rect[bound.edge]\<close>.\<close>

fun rect_edge :: "rect \<Rightarrow> edge \<Rightarrow> real" where
  "rect_edge r EdgeRight = rect_right r"
| "rect_edge r EdgeLeft = rect_left r"
| "rect_edge r EdgeTop = rect_top r"
| "rect_edge r EdgeBottom = rect_bottom r"

text \<open>
  Modelled from the spec: \<open>isElementOverflowing\<close> is imported from \<open>utils/utils\<close>, which
  is not among the sources. The specification describes it as "the dragged bounding box
  (plus fixed margin) would exceed the container's bounding box" on the given edge: the
  inner rectangle lies beyond the container's right or bottom edge, or before its left or
  top edge.
\<close>

fun isElementOverflowing :: "rect \<Rightarrow> rect \<Rightarrow> edge \<Rightarrow> bool" where
  "isElementOverflowing containerRect innerElementRect EdgeRight =
     (rect_right containerRect < rect_right innerElementRect)"
| "isElementOverflowing containerRect innerElementRect EdgeBottom =
     (rect_bottom containerRect < rect_bottom innerElementRect)"
| "isElementOverflowing containerRect innerElementRect EdgeLeft =
     (rect_left containerRect > rect_left innerElementRect)"
| "isElementOverflowing containerRect innerElementRect EdgeTop =
     (rect_top containerRect > rect_top innerElementRect)"

text \<open>The object \<open>adjustedOffsets = {x: offsetX, y: offsetY}\<close>.\<close>

record offsets =
  off_x :: real
  off_y :: real

definition margin :: real where
  "margin = 10"

definition draggedLegendNodeRect :: "rect \<Rightarrow> real \<Rightarrow> real \<Rightarrow> rect" where
  "draggedLegendNodeRect legendNodeRect offsetX offsetY =
     \<lparr> rect_top = rect_top legendNodeRect + offsetY - margin,
       rect_right = rect_right legendNodeRect + offsetX + margin,
       rect_bottom = rect_bottom legendNodeRect + offsetY + margin,
       rect_left = rect_left legendNodeRect + offsetX - margin \<rparr>"

definition boundaries :: "(edge \<times> dimension) list" where
  "boundaries = [(EdgeRight, DimX), (EdgeLeft, DimX), (EdgeTop, DimY), (EdgeBottom, DimY)]"

text \<open>
  The body of the \<open>forEach\<close> callback: the overflow test is a parameter, so that the
  arithmetic of the function is kept apart from the imported helper.
\<close>

definition bound_step ::
  "(rect \<Rightarrow> rect \<Rightarrow> edge \<Rightarrow> bool) \<Rightarrow> rect \<Rightarrow> rect \<Rightarrow> offsets \<Rightarrow> edge \<times> dimension \<Rightarrow> offsets" where
  "bound_step overflowing chartNodeRect dragged adjustedOffsets bound =
     (if overflowing chartNodeRect dragged (fst bound) then
        (let adjustment = rect_edge dragged (fst bound) - rect_edge chartNodeRect (fst bound)
         in case snd bound of
              DimX \<Rightarrow> adjustedOffsets\<lparr>off_x := off_x adjustedOffsets - adjustment\<rparr>
            | DimY \<Rightarrow> adjustedOffsets\<lparr>off_y := off_y adjustedOffsets - adjustment\<rparr>)
      else adjustedOffsets)"

definition enforceContainerBoundaries_with ::
  "(rect \<Rightarrow> rect \<Rightarrow> edge \<Rightarrow> bool) \<Rightarrow> rect \<Rightarrow> rect \<Rightarrow> real \<Rightarrow> real \<Rightarrow> real \<times> real" where
  "enforceContainerBoundaries_with overflowing chartNodeRect legendNodeRect offsetX offsetY =
     (let dragged = draggedLegendNodeRect legendNodeRect offsetX offsetY;
          adjustedOffsets =
            foldl (bound_step overflowing chartNodeRect dragged)
              \<lparr>off_x = offsetX, off_y = offsetY\<rparr> boundaries
      in (off_x adjustedOffsets, off_y adjustedOffsets))"

text \<open>
  \<open>enforceContainerBoundaries(legendNode, offsetX, offsetY)\<close>; the two bounding
  rectangles the function reads from the DOM are its first two arguments here.
\<close>

definition enforceContainerBoundaries :: "rect \<Rightarrow> rect \<Rightarrow> real \<Rightarrow> real \<Rightarrow> real \<times> real" where
  "enforceContainerBoundaries = enforceContainerBoundaries_with isElementOverflowing"

section \<open>Datagrid cell styling: \<open>table_cell_style_listener\<close>\<close>

text \<open>
  A value stored in a field of a per-column plugin configuration: a primitive, or a
  reference to an array (the color ramps are arrays).
\<close>

datatype jv = Prim prim | ArrRef nat

type_synonym config = "(string \<times> jv) list"

text \<open>
  The metadata \<open>regularTable.getMeta\<close> returns for a cell. \<open>x\<close>, \<open>y\<close> and
  \<open>row_header_x\<close> may be \<open>undefined\<close> (\<open>None\<close>), as may the header path;
  \<open>user\<close> is the cell's user value.
\<close>

record metadata =
  meta_x :: "int option"
  meta_y :: "int option"
  meta_y0 :: int
  meta_row_header_x :: "int option"
  meta_column_header :: "string list option"
  meta_user :: prim

text \<open>The fields \<open>_column_types\<close> and \<open>_row_header_types\<close> of the datagrid (\<open>this\<close>).\<close>

record datagrid_types =
  column_types :: "string list"
  row_header_types :: "string list"

definition get_psp_type :: "datagrid_types \<Rightarrow> metadata \<Rightarrow> string option" where
  "get_psp_type this metadata =
     (if js_ge0 (meta_x metadata) then js_index (column_types this) (meta_x metadata)
      else js_index (row_header_types this)
             (map_option (\<lambda>k. k - 1) (meta_row_header_x metadata)))"

text \<open>
  The part of a cell element the listener writes: \<open>td.style.backgroundColor\<close>,
  \<open>td.style.color\<close> and \<open>td.classList\<close>.
\<close>

record td_style =
  backgroundColor :: string
  color :: string
  classList :: "string set"

text \<open>
  A cell element: its read-only tag name, the metadata the table keeps for it, and its
  style.
\<close>

record td =
  tagName :: string
  meta :: metadata
  style :: td_style

text \<open>
  The table element: the plugin configurations stored under the private symbol
  (possibly absent) and the rows of the table body. The listener only reads the
  configurations, so they are held by value here; the section on \<open>save\<close> holds them
  by address.
\<close>

record regular_table =
  plugin_symbol :: "(string \<times> config) list option"
  body_rows :: "td list list"

text \<open>
  The five style handlers are imported from files that are not among the sources
  (\<open>numeric.js\<close>, \<open>string.js\<close>, \<open>datetime.js\<close>, \<open>boolean.js\<close>,
  \<open>row_header.js\<close>). They are parameters of the listener: each receives the cell and
  returns the cell's style as it leaves it. The row-header handler also receives the
  table, of which it is given the layout (the metadata of every cell).
\<close>

record style_handlers =
  cell_style_numeric :: "config option \<Rightarrow> td \<Rightarrow> metadata \<Rightarrow> td_style"
  cell_style_boolean :: "config option \<Rightarrow> td \<Rightarrow> metadata \<Rightarrow> td_style"
  cell_style_string :: "config option \<Rightarrow> td \<Rightarrow> metadata \<Rightarrow> td_style"
  cell_style_datetime :: "config option \<Rightarrow> td \<Rightarrow> metadata \<Rightarrow> td_style"
  cell_style_row_header :: "metadata list list \<Rightarrow> td \<Rightarrow> metadata \<Rightarrow> td_style"

text \<open>\<open>td.classList.toggle(name, force)\<close>.\<close>

definition classList_toggle :: "string \<Rightarrow> bool \<Rightarrow> td \<Rightarrow> td" where
  "classList_toggle name force cell =
     cell\<lparr>style := (style cell)\<lparr>classList :=
        (if force then insert name (classList (style cell))
         else classList (style cell) - {name})\<rparr>\<rparr>"

text \<open>\<open>metadata.column_header?.[metadata.column_header?.length - 1]\<close>.\<close>

definition column_name_of :: "metadata \<Rightarrow> string option" where
  "column_name_of metadata =
     (case meta_column_header metadata of
        None \<Rightarrow> None
      | Some hs \<Rightarrow> js_index hs (Some (int (length hs) - 1)))"

text \<open>A property key: \<open>undefined\<close> used as a key is the string \<open>"undefined"\<close>.\<close>

definition property_key :: "string option \<Rightarrow> string" where
  "property_key name = (case name of None \<Rightarrow> ''undefined'' | Some s \<Rightarrow> s)"

text \<open>\<open>regularTable[PRIVATE_PLUGIN_SYMBOL] || {}\<close>.\<close>

definition plugins_of :: "regular_table \<Rightarrow> (string \<times> config) list" where
  "plugins_of regularTable = (case plugin_symbol regularTable of None \<Rightarrow> [] | Some ps \<Rightarrow> ps)"

text \<open>\<open>plugins[column_name]\<close>.\<close>

definition plugin_for :: "(string \<times> config) list \<Rightarrow> string option \<Rightarrow> config option" where
  "plugin_for plugins column_name = map_of plugins (property_key column_name)"

text \<open>\<open>plugin?.number_fg_mode === "bar"\<close>.\<close>

definition number_fg_mode_is_bar :: "config option \<Rightarrow> bool" where
  "number_fg_mode_is_bar plugin =
     (case plugin of
        None \<Rightarrow> False
      | Some c \<Rightarrow> map_of c ''number_fg_mode'' = Some (Prim (PStr ''bar'')))"

definition is_numeric_type :: "string option \<Rightarrow> bool" where
  "is_numeric_type type = (type = Some ''integer'' \<or> type = Some ''float'')"

text \<open>The type dispatch of the loop body (the chain of \<open>if\<close>/\<open>else if\<close>).\<close>

definition dispatch_type ::
  "style_handlers \<Rightarrow> string option \<Rightarrow> config option \<Rightarrow> td \<Rightarrow> metadata \<Rightarrow> td" where
  "dispatch_type handlers type plugin cell metadata =
     (if is_numeric_type type then
        cell\<lparr>style := cell_style_numeric handlers plugin cell metadata\<rparr>
      else if type = Some ''boolean'' then
        cell\<lparr>style := cell_style_boolean handlers plugin cell metadata\<rparr>
      else if type = Some ''string'' then
        cell\<lparr>style := cell_style_string handlers plugin cell metadata\<rparr>
      else if type = Some ''date'' \<or> type = Some ''datetime'' then
        cell\<lparr>style := cell_style_datetime handlers plugin cell metadata\<rparr>
      else
        cell\<lparr>style := (style cell)\<lparr>backgroundColor := '''', color := ''''\<rparr>\<rparr>)"

text \<open>The body of the inner loop, for one cell.\<close>

definition style_cell ::
  "style_handlers \<Rightarrow> datagrid_types \<Rightarrow> (string \<times> config) list \<Rightarrow> metadata list list
     \<Rightarrow> td \<Rightarrow> td" where
  "style_cell handlers this plugins layout cell =
     (let metadata = meta cell;
          column_name = column_name_of metadata;
          type = get_psp_type this metadata;
          plugin = plugin_for plugins column_name;
          is_numeric = is_numeric_type type;
          td1 = dispatch_type handlers type plugin cell metadata;
          td2 = classList_toggle ''psp-bool-type''
                  (type = Some ''boolean'' \<and> meta_user metadata \<noteq> PNull) td1;
          is_th = (tagName td2 = ''TH'');
          td3 = (if is_th then
                   td2\<lparr>style := cell_style_row_header handlers layout td2 metadata\<rparr>
                 else td2);
          td4 = classList_toggle ''psp-align-right'' (\<not> is_th \<and> is_numeric) td3;
          td5 = classList_toggle ''psp-align-left'' (is_th \<or> \<not> is_numeric) td4
      in classList_toggle ''psp-color-mode-bar''
           (number_fg_mode_is_bar plugin \<and> is_numeric) td5)"

definition layout_of :: "regular_table \<Rightarrow> metadata list list" where
  "layout_of regularTable = map (map meta) (body_rows regularTable)"

text \<open>
  \<open>table_cell_style_listener(regularTable)\<close>: both loops visit every cell of the table
  body once and restyle it in place.
\<close>

definition table_cell_style_listener ::
  "style_handlers \<Rightarrow> datagrid_types \<Rightarrow> regular_table \<Rightarrow> regular_table" where
  "table_cell_style_listener handlers this regularTable =
     (let plugins = plugins_of regularTable
      in regularTable\<lparr>body_rows :=
           map (\<lambda>tr. map (style_cell handlers this plugins (layout_of regularTable)) tr)
             (body_rows regularTable)\<rparr>)"

text \<open>The cell in row \<open>r\<close>, position \<open>c\<close> of the table body.\<close>

definition cell_at :: "regular_table \<Rightarrow> nat \<Rightarrow> nat \<Rightarrow> td" where
  "cell_at regularTable r c = body_rows regularTable ! r ! c"

definition has_class :: "td \<Rightarrow> string \<Rightarrow> bool" where
  "has_class cell name = (name \<in> classList (style cell))"

text \<open>
  Modelled from the spec: the bodies of the style handlers are missing. The specification
  describes each of them as "a pure function of (plugin config for column, cell metadata)
  to a color/class assignment", writing only through "set background, set foreground,
  toggle class". A \<open>style_write\<close> is one such write, \<open>assigns\<close> says that a handler's
  effect on the cell's style is a sequence of writes determined by the handler's other
  arguments.
\<close>

datatype style_write = SetBackground string | SetForeground string | ToggleClass string bool

fun apply_write :: "td_style \<Rightarrow> style_write \<Rightarrow> td_style" where
  "apply_write s (SetBackground v) = s\<lparr>backgroundColor := v\<rparr>"
| "apply_write s (SetForeground v) = s\<lparr>color := v\<rparr>"
| "apply_write s (ToggleClass name force) =
     s\<lparr>classList := (if force then insert name (classList s) else classList s - {name})\<rparr>"

definition apply_writes :: "style_write list \<Rightarrow> td_style \<Rightarrow> td_style" where
  "apply_writes ws s = foldl apply_write s ws"

definition assigns :: "(td \<Rightarrow> metadata \<Rightarrow> td_style) \<Rightarrow> bool" where
  "assigns handler =
     (\<forall>metadata. \<exists>ws. \<forall>cell. handler cell metadata = apply_writes ws (style cell))"

definition assignment_handlers :: "style_handlers \<Rightarrow> bool" where
  "assignment_handlers handlers =
     ((\<forall>plugin. assigns (cell_style_numeric handlers plugin))
      \<and> (\<forall>plugin. assigns (cell_style_boolean handlers plugin))
      \<and> (\<forall>plugin. assigns (cell_style_string handlers plugin))
      \<and> (\<forall>plugin. assigns (cell_style_datetime handlers plugin))
      \<and> (\<forall>layout. assigns (cell_style_row_header handlers layout)))"

text \<open>A handler that leaves the given part of the style of every cell as it found it.\<close>

definition keeps_class :: "(td \<Rightarrow> metadata \<Rightarrow> td_style) \<Rightarrow> string \<Rightarrow> bool" where
  "keeps_class handler name =
     (\<forall>cell metadata. (name \<in> classList (handler cell metadata)) = (name \<in> classList (style cell)))"

definition keeps_colors :: "(td \<Rightarrow> metadata \<Rightarrow> td_style) \<Rightarrow> bool" where
  "keeps_colors handler =
     (\<forall>cell metadata.
        backgroundColor (handler cell metadata) = backgroundColor (style cell)
        \<and> color (handler cell metadata) = color (style cell))"

text \<open>The six types the dispatch knows, and a type lookup that falls outside its table.\<close>

definition known_types :: "string option set" where
  "known_types = {Some ''integer'', Some ''float'', Some ''boolean'', Some ''string'',
                  Some ''date'', Some ''datetime''}"

definition type_index_out_of_range :: "datagrid_types \<Rightarrow> metadata \<Rightarrow> bool" where
  "type_index_out_of_range this metadata =
     (case meta_x metadata of
        Some k \<Rightarrow>
          if 0 \<le> k then int (length (column_types this)) \<le> k
          else (case meta_row_header_x metadata of
                  None \<Rightarrow> True
                | Some j \<Rightarrow> j - 1 < 0 \<or> int (length (row_header_types this)) \<le> j - 1)
      | None \<Rightarrow>
          (case meta_row_header_x metadata of
             None \<Rightarrow> True
           | Some j \<Rightarrow> j - 1 < 0 \<or> int (length (row_header_types this)) \<le> j - 1))"

text \<open>
  A small grid used to instantiate the theorems below: a boolean row header, an integer
  column \<open>price\<close> configured for bar mode, a boolean column \<open>open\<close>, a third column whose
  type is missing from the type table, and a second row header beyond the row-header
  type table. The sample handlers are assignments.
\<close>

definition sample_handlers :: style_handlers where
  "sample_handlers =
     \<lparr> cell_style_numeric = (\<lambda>plugin cell metadata.
         apply_writes [SetBackground '''',
                       SetForeground (if meta_user metadata = PNum 0 then '''' else ''#338DCD'')]
           (style cell)),
       cell_style_boolean = (\<lambda>plugin cell metadata. apply_writes [] (style cell)),
       cell_style_string = (\<lambda>plugin cell metadata.
         apply_writes [SetForeground (if plugin = None then '''' else ''#ff9485'')] (style cell)),
       cell_style_datetime = (\<lambda>plugin cell metadata.
         apply_writes [SetBackground ''''] (style cell)),
       cell_style_row_header = (\<lambda>layout cell metadata.
         apply_writes [ToggleClass ''psp-tree-leaf'' (meta_user metadata \<noteq> PNull)] (style cell)) \<rparr>"

definition sample_types :: datagrid_types where
  "sample_types = \<lparr> column_types = [''integer'', ''boolean''], row_header_types = [''boolean''] \<rparr>"

definition sample_meta :: "int option \<Rightarrow> int option \<Rightarrow> string list option \<Rightarrow> prim \<Rightarrow> metadata" where
  "sample_meta cx rx header v =
     \<lparr> meta_x = cx, meta_y = Some 0, meta_y0 = 0, meta_row_header_x = rx,
       meta_column_header = header, meta_user = v \<rparr>"

definition sample_cell :: "string \<Rightarrow> metadata \<Rightarrow> td" where
  "sample_cell tag metadata =
     \<lparr> tagName = tag, meta = metadata,
       style = \<lparr> backgroundColor = ''#123456'', color = ''#abcdef'',
                 classList = {''psp-align-right'', ''psp-bool-type'', ''psp-color-mode-bar''} \<rparr> \<rparr>"

definition sample_table :: regular_table where
  "sample_table =
     \<lparr> plugin_symbol = Some [(''price'', [(''number_fg_mode'', Prim (PStr ''bar''))])],
       body_rows =
         [[sample_cell ''TH'' (sample_meta None (Some 1) None (PBool True)),
           sample_cell ''TD'' (sample_meta (Some 0) None (Some [''price'']) (PNum 5)),
           sample_cell ''TD'' (sample_meta (Some 1) None (Some [''open'']) PNull),
           sample_cell ''TD'' (sample_meta (Some 2) None (Some [''note'']) (PStr ''n''))],
          [sample_cell ''TH'' (sample_meta None (Some 3) None (PStr ''total''))]] \<rparr>"

section \<open>Row selection: \<open>selectionListener\<close>\<close>

datatype js_error = TypeError

text \<open>One clause \<open>[column, operator, value]\<close> of a filter.\<close>

type_synonym filter_clause = "string \<times> string \<times> prim"

text \<open>The \<open>CustomEvent\<close> the listener dispatches on the viewer.\<close>

record select_event =
  event_name :: string
  bubbles :: bool
  composed :: bool
  detail_selected :: bool
  detail_filter :: "filter_clause list"

text \<open>The click: \<open>event.which\<close> and \<open>regularTable.getMeta(event.target)\<close>.\<close>

record click_event =
  which :: int
  target_meta :: "metadata option"

text \<open>
  What the listener can change: the map of selected rows (keyed by table; a stored value
  may be \<open>undefined\<close>), the flag \<open>event.handled\<close>, the number of redraws requested with
  \<open>regularTable.draw\<close>, and the events dispatched on the viewer so far.
\<close>

record 't select_state =
  selected_rows_map :: "'t \<Rightarrow> prim list option option"
  handled :: bool
  draws :: nat
  dispatched :: "select_event list"

text \<open>\<open>selected_rows_map.get(regularTable)\<close>.\<close>

definition selected_of :: "'t select_state \<Rightarrow> 't \<Rightarrow> prim list option" where
  "selected_of s regularTable =
     (case selected_rows_map s regularTable of None \<Rightarrow> None | Some v \<Rightarrow> v)"

text \<open>\<open>id[i]\<close> for an array \<open>id\<close>: \<open>undefined\<close> beyond the end.\<close>

definition js_elem :: "prim list \<Rightarrow> nat \<Rightarrow> prim" where
  "js_elem xs i = (if i < length xs then xs ! i else PUndefined)"

text \<open>\<open>selected.reduce((agg, x, i) => agg && x === id[i], true)\<close>, from index \<open>i\<close> on.\<close>

fun key_match_reduce :: "prim list \<Rightarrow> prim list \<Rightarrow> nat \<Rightarrow> bool \<Rightarrow> bool" where
  "key_match_reduce [] id' i agg = agg"
| "key_match_reduce (x # xs) id' i agg = key_match_reduce xs id' (Suc i) (agg \<and> x = js_elem id' i)"

text \<open>
  The value of \<open>is_deselect\<close>. Without a stored selection it is false and \<open>id\<close> is not
  read. With one, \<open>id[i]\<close> or \<open>id.length\<close> is evaluated, which throws when \<open>id\<close> is
  \<open>undefined\<close>.
\<close>

definition is_deselect_of :: "prim list option \<Rightarrow> prim list option \<Rightarrow> js_error + bool" where
  "is_deselect_of selected id' =
     (case selected of
        None \<Rightarrow> Inr False
      | Some sel \<Rightarrow>
          (case id' of
             None \<Rightarrow> Inl TypeError
           | Some idv \<Rightarrow>
               (let key_match = key_match_reduce sel idv 0 True
                in Inr (length idv = length sel \<and> key_match))))"

definition perspective_select :: "bool \<Rightarrow> filter_clause list \<Rightarrow> select_event" where
  "perspective_select selected filter' =
     \<lparr> event_name = ''perspective-select'', bubbles = True, composed = True,
       detail_selected = selected, detail_filter = filter' \<rparr>"

text \<open>
  \<open>selectionListener(regularTable, viewer, selected_rows_map, event)\<close>. The viewer is
  read only for its \<open>selectable\<close> attribute; \<open>ids\<close> is \<open>this._ids\<close>. \<open>getCellConfig\<close> is
  imported from a file that is not among the sources: the parameter stands for the
  filter \<open>(await getCellConfig(this, meta.y, meta.x)).config.filter\<close>. The function
  is asynchronous; it is modelled as running to completion, with no other handler
  running between its \<open>await\<close>s.
\<close>

definition selectionListener ::
  "(int option \<Rightarrow> int option \<Rightarrow> filter_clause list) \<Rightarrow> prim list list \<Rightarrow> 't \<Rightarrow> bool
     \<Rightarrow> 't select_state \<Rightarrow> click_event \<Rightarrow> js_error + 't select_state" where
  "selectionListener getCellConfig ids regularTable selectable s event =
     (let meta = target_meta event in
      if \<not> selectable then Inr s
      else if handled s then Inr s
      else if which event \<noteq> 1 then Inr s
      else case meta of
        None \<Rightarrow> Inr s
      | Some m \<Rightarrow>
          (let id' = js_index ids (map_option (\<lambda>y. y - meta_y0 m) (meta_y m)) in
           if js_ge0 (meta_y m) then
             (let selected = selected_of s regularTable in
              case is_deselect_of selected id' of
                Inl e \<Rightarrow> Inl e
              | Inr is_deselect \<Rightarrow>
                  (let s1 = (if is_deselect
                             then s\<lparr>selected_rows_map := (selected_rows_map s)(regularTable := None)\<rparr>
                             else s\<lparr>selected_rows_map := (selected_rows_map s)(regularTable \<mapsto> id')\<rparr>);
                       filter' = (if is_deselect then []
                                 else getCellConfig (meta_y m) (meta_x m))
                   in Inr (s1\<lparr>draws := Suc (draws s1), handled := True,
                              dispatched := dispatched s1 @ [perspective_select (\<not> is_deselect) filter']\<rparr>)))
           else Inr s))"

text \<open>A sample click on the first data row of a viewer whose rows have one-element keys.\<close>

definition sample_ids :: "prim list list" where
  "sample_ids = [[PStr ''a''], [PStr ''b'']]"

definition sample_getCellConfig :: "int option \<Rightarrow> int option \<Rightarrow> filter_clause list" where
  "sample_getCellConfig row col = [(''name'', ''=='', PStr ''a'')]"

definition sample_click :: click_event where
  "sample_click = \<lparr> which = 1, target_meta = Some (sample_meta (Some 0) None (Some [''price'']) (PNum 5)) \<rparr>"

definition no_selection :: "nat \<Rightarrow> prim list option option" where
  "no_selection regularTable = None"

definition sample_select_state :: "nat select_state" where
  "sample_select_state =
     \<lparr> selected_rows_map = no_selection, handled = False, draws = 0, dispatched = [] \<rparr>"

section \<open>Plugin state serialization: \<open>save\<close>\<close>

text \<open>A JSON text, as \<open>JSON.stringify\<close> produces and \<open>JSON.parse\<close> reads it.\<close>

datatype json =
  JsNull | JsBool bool | JsNum int | JsStr string | JsArr "json list" | JsObj "(string \<times> json) list"

text \<open>
  Objects and arrays are mutable and shared by reference: they live in a store and are
  named by their address. Cell \<open>a\<close> of \<open>objs\<close> holds the properties of the object at
  address \<open>a\<close>, in insertion order; cell \<open>r\<close> of \<open>arrs\<close> holds the elements of the
  array at address \<open>r\<close>. A reference always names an allocated cell; reading beyond the
  store gives an empty object or array. The values of a configuration are primitives or
  arrays of primitives. \<open>Object.keys\<close> is the list of keys in insertion order (the
  engine's reordering of integer-like keys is left out). Only own properties are
  modelled: column names are taken not to collide with the properties every object
  inherits (\<open>constructor\<close>, \<open>toString\<close>, ...).
\<close>

record store =
  objs :: "config list"
  arrs :: "prim list list"

definition obj_at :: "store \<Rightarrow> nat \<Rightarrow> config" where
  "obj_at st a = (if a < length (objs st) then objs st ! a else [])"

definition arr_at :: "store \<Rightarrow> nat \<Rightarrow> prim list" where
  "arr_at st r = (if r < length (arrs st) then arrs st ! r else [])"

text \<open>A new object with the given properties; its address is the next free one.\<close>

definition alloc_obj :: "config \<Rightarrow> store \<Rightarrow> nat \<times> store" where
  "alloc_obj props st = (length (objs st), st\<lparr>objs := objs st @ [props]\<rparr>)"

text \<open>\<open>obj[key]\<close>: \<open>undefined\<close> for a missing property.\<close>

definition lookup_prop :: "config \<Rightarrow> string \<Rightarrow> jv" where
  "lookup_prop props key = (case map_of props key of None \<Rightarrow> Prim PUndefined | Some v \<Rightarrow> v)"

definition get_prop :: "store \<Rightarrow> nat \<Rightarrow> string \<Rightarrow> jv" where
  "get_prop st a key = lookup_prop (obj_at st a) key"

text \<open>\<open>obj[key] = v\<close>, on the object at address \<open>a\<close>.\<close>

definition set_prop :: "nat \<Rightarrow> string \<Rightarrow> jv \<Rightarrow> store \<Rightarrow> store" where
  "set_prop a key v st = st\<lparr>objs := (objs st)[a := AList.update key v (obj_at st a)]\<rparr>"

fun truthy :: "jv \<Rightarrow> bool" where
  "truthy (Prim p) = truthy_prim p"
| "truthy (ArrRef r) = True"

text \<open>
  \<open>v?.[0]\<close>: the first element of an array, the first character of a string,
  \<open>undefined\<close> for an empty array or string and for every other primitive.
\<close>

fun index0 :: "store \<Rightarrow> jv \<Rightarrow> jv" where
  "index0 st (ArrRef r) = (case arr_at st r of [] \<Rightarrow> Prim PUndefined | v # vs \<Rightarrow> Prim v)"
| "index0 st (Prim (PStr s)) = (case s of [] \<Rightarrow> Prim PUndefined | ch # cs \<Rightarrow> Prim (PStr [ch]))"
| "index0 st (Prim p) = Prim PUndefined"

text \<open>The datagrid element: the object stored under \<open>PRIVATE_PLUGIN_SYMBOL\<close> (possibly
  absent) maps each column name to the address of its configuration object.\<close>

record datagrid =
  private_plugin :: "(string \<times> nat) list option"

text \<open>The plugin element (\<open>this\<close>) as far as \<open>save\<close> reads it.\<close>

record viewer_plugin =
  regular_table :: "datagrid option"
  is_scroll_lock :: prim
  is_edit_mode :: prim

text \<open>\<open>datagrid[PRIVATE_PLUGIN_SYMBOL] || {}\<close>.\<close>

definition plugin_configs :: "datagrid \<Rightarrow> (string \<times> nat) list" where
  "plugin_configs dg = (case private_plugin dg of None \<Rightarrow> [] | Some ps \<Rightarrow> ps)"

text \<open>
  The body of the first loop, for the column \<open>col\<close>: \<open>columns\<close> is \<open>token.columns\<close>,
  which maps a column name to the address of its entry.
\<close>

definition save_column ::
  "(string \<times> nat) list \<Rightarrow> (string \<times> nat) list \<times> store \<Rightarrow> string
     \<Rightarrow> (string \<times> nat) list \<times> store" where
  "save_column plugins tok col =
     (let columns = fst tok; st = snd tok;
          source = (case map_of plugins col of None \<Rightarrow> [] | Some a \<Rightarrow> obj_at st a);
          config = fst (alloc_obj source st);
          st1 = snd (alloc_obj source st);
          st2 = (if truthy (get_prop st1 config ''pos_fg_color'')
                    \<or> truthy (get_prop st1 config ''pos_bg_color'')
                 then
                   (let s1 = set_prop config ''pos_fg_color''
                               (index0 st1 (get_prop st1 config ''pos_fg_color'')) st1;
                        s2 = set_prop config ''neg_fg_color''
                               (index0 s1 (get_prop s1 config ''neg_fg_color'')) s1;
                        s3 = set_prop config ''pos_bg_color''
                               (index0 s2 (get_prop s2 config ''pos_bg_color'')) s2
                    in set_prop config ''neg_bg_color''
                         (index0 s3 (get_prop s3 config ''neg_bg_color'')) s3)
                 else st1);
          st3 = (if truthy (get_prop st2 config ''color'')
                 then set_prop config ''color'' (index0 st2 (get_prop st2 config ''color'')) st2
                 else st2)
      in (AList.update col config columns, st3))"

text \<open>The body of the second loop, for the column \<open>col\<close> of the size overrides.\<close>

definition save_override ::
  "(string \<times> prim) list \<Rightarrow> (string \<times> nat) list \<times> store \<Rightarrow> string
     \<Rightarrow> (string \<times> nat) list \<times> store" where
  "save_override column_size_overrides tok col =
     (let columns = fst tok; st = snd tok;
          v = (case map_of column_size_overrides col of None \<Rightarrow> PUndefined | Some w \<Rightarrow> w)
      in case map_of columns col of
           None \<Rightarrow>
             (let entry = fst (alloc_obj [] st); st1 = snd (alloc_obj [] st)
              in (AList.update col entry columns,
                  set_prop entry ''column_size_override'' (Prim v) st1))
         | Some entry \<Rightarrow> (columns, set_prop entry ''column_size_override'' (Prim v) st))"

text \<open>
  \<open>JSON.stringify\<close>: a property whose value is \<open>undefined\<close> is left out of an object; an
  \<open>undefined\<close> array element is written \<open>null\<close>. The serializer walks the keys of an
  object and reads each property.
\<close>

fun json_of_prim :: "prim \<Rightarrow> json option" where
  "json_of_prim PUndefined = None"
| "json_of_prim PNull = Some JsNull"
| "json_of_prim (PBool b) = Some (JsBool b)"
| "json_of_prim (PNum n) = Some (JsNum n)"
| "json_of_prim (PStr s) = Some (JsStr s)"

definition json_of_elem :: "prim \<Rightarrow> json" where
  "json_of_elem p = (case json_of_prim p of None \<Rightarrow> JsNull | Some j \<Rightarrow> j)"

fun json_of_jv :: "store \<Rightarrow> jv \<Rightarrow> json option" where
  "json_of_jv st (Prim p) = json_of_prim p"
| "json_of_jv st (ArrRef r) = Some (JsArr (map json_of_elem (arr_at st r)))"

definition json_of_fields :: "store \<Rightarrow> config \<Rightarrow> (string \<times> json) list" where
  "json_of_fields st props =
     List.map_filter
       (\<lambda>key. map_option (Pair key) (json_of_jv st (lookup_prop props key)))
       (map fst props)"

definition json_of_columns :: "store \<Rightarrow> (string \<times> nat) list \<Rightarrow> (string \<times> json) list" where
  "json_of_columns st columns =
     List.map_filter
       (\<lambda>col. map_option (\<lambda>a. (col, JsObj (json_of_fields st (obj_at st a)))) (map_of columns col))
       (map fst columns)"

text \<open>The two loops of \<open>save\<close>: they build \<open>token.columns\<close> in the store.\<close>

definition build_columns ::
  "(string \<times> prim) list option \<Rightarrow> datagrid \<Rightarrow> store \<Rightarrow> (string \<times> nat) list \<times> store" where
  "build_columns overrides dg st =
     (let plugins = plugin_configs dg;
          tok1 = foldl (save_column plugins) ([], st) (map fst plugins);
          column_size_overrides = (case overrides of None \<Rightarrow> [] | Some os \<Rightarrow> os)
      in foldl (save_override column_size_overrides) tok1 (map fst column_size_overrides))"

text \<open>
  \<open>save()\<close>. \<open>save_column_size_overrides\<close> is imported from a file that is not among
  the sources; it is a parameter, a function of the plugin element. The result is the
  value of \<open>JSON.parse(JSON.stringify(token))\<close>, together with the store as the call
  leaves it.
\<close>

definition save ::
  "(viewer_plugin \<Rightarrow> (string \<times> prim) list option) \<Rightarrow> viewer_plugin \<Rightarrow> store
     \<Rightarrow> json \<times> store" where
  "save save_column_size_overrides this st =
     (case regular_table this of
        Some datagrid \<Rightarrow>
          (let tok = build_columns (save_column_size_overrides this) datagrid st
           in (JsObj [(''columns'', JsObj (json_of_columns (snd tok) (fst tok))),
                      (''scroll_lock'', JsBool (truthy_prim (is_scroll_lock this))),
                      (''editable'', JsBool (truthy_prim (is_edit_mode this)))],
               snd tok))
      | None \<Rightarrow> (JsObj [], st))"




text \<open>
  The same computation on values, without the store: what the first loop does to a
  copy of a configuration, what the second loop does to \<open>token.columns\<close> read through
  the store, and the condition that the store has only grown since \<open>st0\<close>. These are
  used to reason about \<open>save\<close>, not to define it.
\<close>

definition reduce_colors :: "store \<Rightarrow> config \<Rightarrow> config" where
  "reduce_colors st c =
     (let c4 = (if truthy (lookup_prop c ''pos_fg_color'') \<or> truthy (lookup_prop c ''pos_bg_color'')
                then
                  (let c1 = AList.update ''pos_fg_color'' (index0 st (lookup_prop c ''pos_fg_color'')) c;
                       c2 = AList.update ''neg_fg_color'' (index0 st (lookup_prop c1 ''neg_fg_color'')) c1;
                       c3 = AList.update ''pos_bg_color'' (index0 st (lookup_prop c2 ''pos_bg_color'')) c2
                   in AList.update ''neg_bg_color'' (index0 st (lookup_prop c3 ''neg_bg_color'')) c3)
                else c)
      in if truthy (lookup_prop c4 ''color'')
         then AList.update ''color'' (index0 st (lookup_prop c4 ''color'')) c4
         else c4)"

definition stored_config :: "(string \<times> nat) list \<Rightarrow> store \<Rightarrow> string \<Rightarrow> config" where
  "stored_config plugins st col = (case map_of plugins col of None \<Rightarrow> [] | Some a \<Rightarrow> obj_at st a)"

definition view :: "store \<Rightarrow> (string \<times> nat) list \<Rightarrow> (string \<times> config) list" where
  "view st columns = map (\<lambda>ca. (fst ca, obj_at st (snd ca))) columns"

definition override_value :: "(string \<times> prim) list \<Rightarrow> string \<Rightarrow> prim" where
  "override_value column_size_overrides col =
     (case map_of column_size_overrides col of None \<Rightarrow> PUndefined | Some w \<Rightarrow> w)"


definition pure_override ::
  "(string \<times> prim) list \<Rightarrow> (string \<times> config) list \<Rightarrow> string \<Rightarrow> (string \<times> config) list" where
  "pure_override column_size_overrides vc col =
     AList.update col
       (AList.update ''column_size_override'' (Prim (override_value column_size_overrides col))
          (case map_of vc col of None \<Rightarrow> [] | Some c \<Rightarrow> c))
       vc"



definition grown_from :: "store \<Rightarrow> (string \<times> nat) list \<times> store \<Rightarrow> bool" where
  "grown_from st0 tok =
     (length (objs st0) \<le> length (objs (snd tok))
      \<and> take (length (objs st0)) (objs (snd tok)) = objs st0
      \<and> arrs (snd tok) = arrs st0
      \<and> (\<forall>a \<in> snd ` set (fst tok). length (objs st0) \<le> a \<and> a < length (objs (snd tok)))
      \<and> distinct (map snd (fst tok)))"

text \<open>
  A sample plugin state: column \<open>price\<close> with positive and negative foreground colors
  stored as arrays, column \<open>name\<close> with a \<open>color\<close> array, column \<open>delta\<close> with only a
  negative foreground color, and a size override for a column \<open>width\<close> that has no
  configuration.
\<close>

definition sample_store :: store where
  "sample_store =
     \<lparr> objs = [[(''number_fg_mode'', Prim (PStr ''color'')),
                (''pos_fg_color'', ArrRef 0), (''neg_fg_color'', ArrRef 1)],
               [(''color'', ArrRef 2)],
               [(''neg_fg_color'', ArrRef 1)]],
       arrs = [[PStr ''#338DCD'', PNum 51, PNum 141, PNum 205],
               [PStr ''#FF5942'', PNum 255, PNum 89, PNum 66],
               [PStr ''#ff9485'', PNum 255, PNum 148, PNum 133]] \<rparr>"

definition sample_plugin :: viewer_plugin where
  "sample_plugin =
     \<lparr> regular_table = Some \<lparr> private_plugin = Some [(''price'', 0), (''name'', 1), (''delta'', 2)] \<rparr>,
       is_scroll_lock = PUndefined, is_edit_mode = PBool True \<rparr>"

definition sample_overrides :: "viewer_plugin \<Rightarrow> (string \<times> prim) list option" where
  "sample_overrides this = Some [(''width'', PNum 120), (''price'', PNum 80)]"

section \<open>Properties of the legend clamping\<close>

lemma enforce_unfold:
  "enforceContainerBoundaries chart legend ox oy =
     (let d = draggedLegendNodeRect legend ox oy;
          s1 = bound_step isElementOverflowing chart d \<lparr>off_x = ox, off_y = oy\<rparr> (EdgeRight, DimX);
          s2 = bound_step isElementOverflowing chart d s1 (EdgeLeft, DimX);
          s3 = bound_step isElementOverflowing chart d s2 (EdgeTop, DimY);
          s4 = bound_step isElementOverflowing chart d s3 (EdgeBottom, DimY)
      in (off_x s4, off_y s4))"
  by (simp add: enforceContainerBoundaries_def enforceContainerBoundaries_with_def
      boundaries_def Let_def)



text \<open>
  Claim C9. When the dragged legend overflows the container on none of the four edges,
  the function returns the pair of input offsets unchanged.
\<close>

theorem C9_identity_in_bounds:
  assumes "\<not> isElementOverflowing chart (draggedLegendNodeRect legend ox oy) EdgeRight"
    and "\<not> isElementOverflowing chart (draggedLegendNodeRect legend ox oy) EdgeLeft"
    and "\<not> isElementOverflowing chart (draggedLegendNodeRect legend ox oy) EdgeTop"
    and "\<not> isElementOverflowing chart (draggedLegendNodeRect legend ox oy) EdgeBottom"
  shows "enforceContainerBoundaries chart legend ox oy = (ox, oy)"
  using assms
  by (simp add: enforce_unfold bound_step_def Let_def)

theorem C9_identity_in_bounds_witness:
  "\<not> isElementOverflowing
     \<lparr>rect_top = 0, rect_right = 400, rect_bottom = 300, rect_left = 0\<rparr>
     (draggedLegendNodeRect
        \<lparr>rect_top = 20, rect_right = 380, rect_bottom = 120, rect_left = 280\<rparr> (-30) 7)
     EdgeRight
   \<and> enforceContainerBoundaries
     \<lparr>rect_top = 0, rect_right = 400, rect_bottom = 300, rect_left = 0\<rparr>
     \<lparr>rect_top = 20, rect_right = 380, rect_bottom = 120, rect_left = 280\<rparr> (-30) 7
   = (-30, 7)"
proof -
  let ?chart = "\<lparr>rect_top = 0, rect_right = 400, rect_bottom = 300, rect_left = 0\<rparr>"
  let ?legend = "\<lparr>rect_top = 20, rect_right = 380, rect_bottom = 120, rect_left = 280\<rparr>"
  have r: "\<not> isElementOverflowing ?chart (draggedLegendNodeRect ?legend (-30) 7) EdgeRight"
    by (simp add: draggedLegendNodeRect_def margin_def)
  have l: "\<not> isElementOverflowing ?chart (draggedLegendNodeRect ?legend (-30) 7) EdgeLeft"
    by (simp add: draggedLegendNodeRect_def margin_def)
  have t: "\<not> isElementOverflowing ?chart (draggedLegendNodeRect ?legend (-30) 7) EdgeTop"
    by (simp add: draggedLegendNodeRect_def margin_def)
  have b: "\<not> isElementOverflowing ?chart (draggedLegendNodeRect ?legend (-30) 7) EdgeBottom"
    by (simp add: draggedLegendNodeRect_def margin_def)
  from C9_identity_in_bounds [OF r l t b] r show ?thesis by simp
qed

section \<open>Properties of the cell-style listener\<close>

lemma classList_toggle_tagName [simp]: "tagName (classList_toggle n b c) = tagName c"
  by (simp add: classList_toggle_def)

lemma classList_toggle_meta [simp]: "meta (classList_toggle n b c) = meta c"
  by (simp add: classList_toggle_def)

lemma has_class_toggle [simp]:
  "has_class (classList_toggle n b c) m = (if m = n then b else has_class c m)"
  by (simp add: classList_toggle_def has_class_def)

lemma toggle_backgroundColor [simp]:
  "backgroundColor (style (classList_toggle n b c)) = backgroundColor (style c)"
  by (simp add: classList_toggle_def)

lemma toggle_color [simp]:
  "color (style (classList_toggle n b c)) = color (style c)"
  by (simp add: classList_toggle_def)

lemma dispatch_type_tagName [simp]: "tagName (dispatch_type h t p c m) = tagName c"
  by (simp add: dispatch_type_def)

lemma dispatch_type_meta [simp]: "meta (dispatch_type h t p c m) = meta c"
  by (simp add: dispatch_type_def)

lemma style_cell_tagName [simp]: "tagName (style_cell h this ps lay c) = tagName c"
  by (simp add: style_cell_def Let_def)

lemma style_cell_meta [simp]: "meta (style_cell h this ps lay c) = meta c"
  by (simp add: style_cell_def Let_def)

text \<open>Every cell of the table body is restyled by the loop body, from its own state.\<close>

lemma listener_cell_at:
  assumes "r < length (body_rows rt)" and "c < length (body_rows rt ! r)"
  shows "cell_at (table_cell_style_listener h this rt) r c
           = style_cell h this (plugins_of rt) (layout_of rt) (cell_at rt r c)"
  using assms by (simp add: table_cell_style_listener_def cell_at_def Let_def)

lemma style_cell_align_right:
  "has_class (style_cell h this ps lay c) ''psp-align-right''
     = (tagName c \<noteq> ''TH'' \<and> is_numeric_type (get_psp_type this (meta c)))"
  by (simp add: style_cell_def Let_def)

lemma style_cell_align_left:
  "has_class (style_cell h this ps lay c) ''psp-align-left''
     = (tagName c = ''TH'' \<or> \<not> is_numeric_type (get_psp_type this (meta c)))"
  by (simp add: style_cell_def Let_def)

lemma style_cell_bar:
  "has_class (style_cell h this ps lay c) ''psp-color-mode-bar''
     = (number_fg_mode_is_bar (plugin_for ps (column_name_of (meta c)))
        \<and> is_numeric_type (get_psp_type this (meta c)))"
  by (simp add: style_cell_def Let_def)

lemma style_cell_bool:
  assumes "tagName c = ''TH'' \<Longrightarrow> keeps_class (cell_style_row_header h lay) ''psp-bool-type''"
  shows "has_class (style_cell h this ps lay c) ''psp-bool-type''
     = (get_psp_type this (meta c) = Some ''boolean'' \<and> meta_user (meta c) \<noteq> PNull)"
proof (cases "tagName c = ''TH''")
  case True
  with assms have k: "keeps_class (cell_style_row_header h lay) ''psp-bool-type''" by simp
  show ?thesis using True k [unfolded keeps_class_def]
    by (simp add: style_cell_def Let_def has_class_def classList_toggle_def)
next
  case False
  then show ?thesis by (simp add: style_cell_def Let_def)
qed

lemma out_of_range_unknown:
  "type_index_out_of_range this m \<Longrightarrow> get_psp_type this m = None"
  by (auto simp: type_index_out_of_range_def get_psp_type_def js_index_def js_ge0_def
      split: option.splits if_splits)

lemma style_cell_unknown:
  assumes "get_psp_type this (meta c) \<notin> known_types"
    and "tagName c = ''TH'' \<Longrightarrow> keeps_colors (cell_style_row_header h lay)"
  shows "backgroundColor (style (style_cell h this ps lay c)) = ''''
         \<and> color (style (style_cell h this ps lay c)) = ''''"
proof -
  have d: "style (dispatch_type h (get_psp_type this (meta c)) p c (meta c))
             = (style c)\<lparr>backgroundColor := '''', color := ''''\<rparr>" for p
    using assms(1) by (auto simp: dispatch_type_def known_types_def is_numeric_type_def)
  show ?thesis
  proof (cases "tagName c = ''TH''")
    case True
    with assms(2) have k: "keeps_colors (cell_style_row_header h lay)" by simp
    show ?thesis using True k [unfolded keeps_colors_def] d
      by (simp add: style_cell_def Let_def)
  next
    case False
    then show ?thesis using d by (simp add: style_cell_def Let_def)
  qed
qed

subsection \<open>Sequences of writes\<close>

lemma apply_writes_Nil: "apply_writes [] s = s"
  by (simp add: apply_writes_def)

lemma apply_writes_Cons: "apply_writes (w # ws) s = apply_writes ws (apply_write s w)"
  by (simp add: apply_writes_def)

lemma apply_writes_append:
  "apply_writes (ws @ vs) s = apply_writes vs (apply_writes ws s)"
  by (simp add: apply_writes_def)

text \<open>Two writes either hit the same attribute, and the later one wins, or commute.\<close>

lemma apply_write_pair:
  "apply_write (apply_write t w) u = apply_write t u
   \<or> apply_write (apply_write t w) u = apply_write (apply_write t u) w"
  by (cases w; cases u) (auto intro!: td_style.equality)

lemma apply_write_idem: "apply_write (apply_write t w) w = apply_write t w"
  by (cases w) (auto intro!: td_style.equality)

lemma write_absorbed:
  "apply_write (apply_writes ws (apply_write t w)) w = apply_write (apply_writes ws t) w"
proof (induction ws arbitrary: t)
  case Nil
  show ?case by (simp add: apply_write_idem apply_writes_Nil)
next
  case (Cons u ws)
  from apply_write_pair [of t w u] show ?case
  proof
    assume "apply_write (apply_write t w) u = apply_write t u"
    then show ?thesis by (simp add: apply_writes_Cons)
  next
    assume "apply_write (apply_write t w) u = apply_write (apply_write t u) w"
    then show ?thesis using Cons.IH [of "apply_write t u"] by (simp add: apply_writes_Cons)
  qed
qed

lemma apply_writes_idem: "apply_writes ws (apply_writes ws s) = apply_writes ws s"
proof (induction ws arbitrary: s rule: rev_induct)
  case Nil
  show ?case by (simp add: apply_writes_Nil)
next
  case (snoc w ws)
  have "apply_writes (ws @ [w]) (apply_writes (ws @ [w]) s)
          = apply_write (apply_writes ws (apply_write (apply_writes ws s) w)) w"
    by (simp add: apply_writes_append apply_writes_Cons apply_writes_Nil)
  also have "\<dots> = apply_write (apply_writes ws (apply_writes ws s)) w"
    by (rule write_absorbed)
  also have "\<dots> = apply_write (apply_writes ws s) w"
    by (simp add: snoc.IH)
  finally show ?case by (simp add: apply_writes_append apply_writes_Cons apply_writes_Nil)
qed

lemma toggle_as_write:
  "classList_toggle n b c = c\<lparr>style := apply_writes [ToggleClass n b] (style c)\<rparr>"
  by (simp add: classList_toggle_def apply_writes_Cons apply_writes_Nil)

lemma dispatch_as_writes:
  assumes "assignment_handlers h"
  shows "\<exists>ws. \<forall>c. dispatch_type h t p c m = c\<lparr>style := apply_writes ws (style c)\<rparr>"
proof -
  from assms obtain wn wb wst wd where
    n: "\<And>c. cell_style_numeric h p c m = apply_writes wn (style c)" and
    b: "\<And>c. cell_style_boolean h p c m = apply_writes wb (style c)" and
    s: "\<And>c. cell_style_string h p c m = apply_writes wst (style c)" and
    d: "\<And>c. cell_style_datetime h p c m = apply_writes wd (style c)"
    unfolding assignment_handlers_def assigns_def by metis
  let ?ws = "if is_numeric_type t then wn
             else if t = Some ''boolean'' then wb
             else if t = Some ''string'' then wst
             else if t = Some ''date'' \<or> t = Some ''datetime'' then wd
             else [SetBackground '''', SetForeground '''']"
  have "\<forall>c. dispatch_type h t p c m = c\<lparr>style := apply_writes ?ws (style c)\<rparr>"
    by (simp add: dispatch_type_def n b s d apply_writes_Cons apply_writes_Nil)
  then show ?thesis by blast
qed

text \<open>
  With assignment handlers, the loop body applies to the cell's style one sequence of
  writes, fixed by the cell's tag name and metadata.
\<close>

lemma style_cell_as_writes:
  assumes "assignment_handlers h"
  shows "\<exists>ws. \<forall>c. tagName c = tn \<and> meta c = m \<longrightarrow>
           style_cell h this ps lay c = c\<lparr>style := apply_writes ws (style c)\<rparr>"
proof -
  let ?t = "get_psp_type this m"
  let ?p = "plugin_for ps (column_name_of m)"
  from dispatch_as_writes [OF assms, of ?t ?p m] obtain w1 where
    w1: "\<And>c. dispatch_type h ?t ?p c m = c\<lparr>style := apply_writes w1 (style c)\<rparr>"
    by blast
  from assms obtain wr where
    wr: "\<And>c. cell_style_row_header h lay c m = apply_writes wr (style c)"
    unfolding assignment_handlers_def assigns_def by metis
  let ?ws = "w1 @ [ToggleClass ''psp-bool-type'' (?t = Some ''boolean'' \<and> meta_user m \<noteq> PNull)]
             @ (if tn = ''TH'' then wr else [])
             @ [ToggleClass ''psp-align-right'' (tn \<noteq> ''TH'' \<and> is_numeric_type ?t),
                ToggleClass ''psp-align-left'' (tn = ''TH'' \<or> \<not> is_numeric_type ?t),
                ToggleClass ''psp-color-mode-bar'' (number_fg_mode_is_bar ?p \<and> is_numeric_type ?t)]"
  have "\<forall>c. tagName c = tn \<and> meta c = m \<longrightarrow>
           style_cell h this ps lay c = c\<lparr>style := apply_writes ?ws (style c)\<rparr>"
    by (cases "tn = ''TH''")
      (simp_all add: style_cell_def Let_def w1 wr toggle_as_write apply_writes_append [symmetric])
  then show ?thesis by blast
qed

lemma style_cell_idem:
  assumes "assignment_handlers h"
  shows "style_cell h this ps lay (style_cell h this ps lay c) = style_cell h this ps lay c"
proof -
  from style_cell_as_writes [OF assms, of "tagName c" "meta c" this ps lay] obtain ws where
    ws: "\<And>d. tagName d = tagName c \<Longrightarrow> meta d = meta c \<Longrightarrow>
           style_cell h this ps lay d = d\<lparr>style := apply_writes ws (style d)\<rparr>"
    by blast
  have 1: "style_cell h this ps lay c = c\<lparr>style := apply_writes ws (style c)\<rparr>"
    by (rule ws) simp_all
  have "style_cell h this ps lay (c\<lparr>style := apply_writes ws (style c)\<rparr>)
          = c\<lparr>style := apply_writes ws (style c)\<rparr>\<lparr>style := apply_writes ws (apply_writes ws (style c))\<rparr>"
    using ws [of "c\<lparr>style := apply_writes ws (style c)\<rparr>"] by simp
  then show ?thesis by (simp add: 1 apply_writes_idem)
qed

lemma layout_listener: "layout_of (table_cell_style_listener h this rt) = layout_of rt"
  by (simp add: layout_of_def table_cell_style_listener_def Let_def comp_def)

lemma plugins_listener: "plugins_of (table_cell_style_listener h this rt) = plugins_of rt"
  by (simp add: plugins_of_def table_cell_style_listener_def Let_def)

lemma sample_handlers_assign: "assignment_handlers sample_handlers"
  unfolding assignment_handlers_def assigns_def sample_handlers_def
  by (simp, blast)

lemma sample_row_header_keeps_class:
  "keeps_class (cell_style_row_header sample_handlers lay) ''psp-bool-type''"
  by (simp add: keeps_class_def sample_handlers_def apply_writes_Cons apply_writes_Nil)

lemma sample_row_header_keeps_colors:
  "keeps_colors (cell_style_row_header sample_handlers lay)"
  by (simp add: keeps_colors_def sample_handlers_def apply_writes_Cons apply_writes_Nil)

lemmas sample_defs =
  sample_table_def sample_cell_def sample_meta_def sample_types_def cell_at_def
  get_psp_type_def js_index_def js_ge0_def

subsection \<open>The claims about the listener\<close>

text \<open>
  Claim C1. Idempotence of the cell-style listener: for every table and plugin
  configuration, running the listener twice in succession leaves every cell with exactly
  the style (background color, foreground color and class list, hence the four marker
  classes) that one run leaves. The style handlers are taken to be assignments, as the
  specification describes them.
\<close>

theorem C1_listener_idempotent:
  assumes "assignment_handlers handlers"
  shows "table_cell_style_listener handlers this
           (table_cell_style_listener handlers this regularTable)
         = table_cell_style_listener handlers this regularTable"
proof -
  let ?once = "table_cell_style_listener handlers this regularTable"
  have "table_cell_style_listener handlers this ?once
        = ?once\<lparr>body_rows :=
             map (map (style_cell handlers this (plugins_of regularTable) (layout_of regularTable)))
               (body_rows ?once)\<rparr>"
    by (simp add: table_cell_style_listener_def [of handlers this ?once]
        Let_def layout_listener plugins_listener)
  also have "\<dots> = ?once"
    by (simp add: table_cell_style_listener_def [of handlers this regularTable] Let_def comp_def
        style_cell_idem [OF assms])
  finally show ?thesis .
qed

theorem C1_listener_idempotent_witness:
  "assignment_handlers sample_handlers
   \<and> table_cell_style_listener sample_handlers sample_types
       (table_cell_style_listener sample_handlers sample_types sample_table)
     = table_cell_style_listener sample_handlers sample_types sample_table"
  using C1_listener_idempotent [OF sample_handlers_assign, of sample_types sample_table]
    sample_handlers_assign
  by simp

text \<open>
  Claim C2. Boolean-type marker: after a pass, a cell carries the class
  \<open>psp-bool-type\<close> if and only if its resolved type is \<open>boolean\<close> and its user value is
  not \<open>null\<close>. For a header cell the row-header handler runs after the marker is set; it
  is taken to leave this class alone.
\<close>

theorem C2_bool_type_marker:
  assumes "r < length (body_rows regularTable)"
    and "c < length (body_rows regularTable ! r)"
    and "tagName (cell_at regularTable r c) = ''TH'' \<Longrightarrow>
           keeps_class (cell_style_row_header handlers (layout_of regularTable)) ''psp-bool-type''"
  shows "has_class (cell_at (table_cell_style_listener handlers this regularTable) r c)
             ''psp-bool-type''
         = (get_psp_type this (meta (cell_at regularTable r c)) = Some ''boolean''
            \<and> meta_user (meta (cell_at regularTable r c)) \<noteq> PNull)"
  using assms by (simp add: listener_cell_at style_cell_bool)

theorem C2_bool_type_marker_witness:
  "has_class (cell_at (table_cell_style_listener sample_handlers sample_types sample_table) 0 0)
       ''psp-bool-type''
   \<and> tagName (cell_at sample_table 0 0) = ''TH''
   \<and> get_psp_type sample_types (meta (cell_at sample_table 0 0)) = Some ''boolean''
   \<and> \<not> has_class (cell_at (table_cell_style_listener sample_handlers sample_types sample_table) 0 2)
       ''psp-bool-type''
   \<and> get_psp_type sample_types (meta (cell_at sample_table 0 2)) = Some ''boolean''
   \<and> meta_user (meta (cell_at sample_table 0 2)) = PNull"
proof -
  have r: "0 < length (body_rows sample_table)" by (simp add: sample_table_def)
  have c0: "0 < length (body_rows sample_table ! 0)" by (simp add: sample_table_def)
  have c2: "2 < length (body_rows sample_table ! 0)" by (simp add: sample_table_def)
  note a = C2_bool_type_marker [OF r c0 sample_row_header_keeps_class, of sample_types]
  note b = C2_bool_type_marker [OF r c2 sample_row_header_keeps_class, of sample_types]
  show ?thesis using a b by (simp add: sample_defs)
qed

text \<open>
  Claim C3. Alignment markers: after a pass, a cell carries \<open>psp-align-right\<close> if and
  only if it is not a header cell (its tag is not \<open>TH\<close>) and its type is \<open>integer\<close> or
  \<open>float\<close>; it carries \<open>psp-align-left\<close> if and only if it does not carry
  \<open>psp-align-right\<close>, so exactly one of the two is active; a header cell is left-aligned
  whatever its type.
\<close>

theorem C3_alignment_markers:
  assumes "r < length (body_rows regularTable)"
    and "c < length (body_rows regularTable ! r)"
  shows "(has_class (cell_at (table_cell_style_listener handlers this regularTable) r c)
              ''psp-align-right''
          = (tagName (cell_at regularTable r c) \<noteq> ''TH''
             \<and> (get_psp_type this (meta (cell_at regularTable r c)) = Some ''integer''
                \<or> get_psp_type this (meta (cell_at regularTable r c)) = Some ''float'')))
       \<and> (has_class (cell_at (table_cell_style_listener handlers this regularTable) r c)
              ''psp-align-left''
          = (\<not> has_class (cell_at (table_cell_style_listener handlers this regularTable) r c)
              ''psp-align-right''))
       \<and> (tagName (cell_at regularTable r c) = ''TH'' \<longrightarrow>
            has_class (cell_at (table_cell_style_listener handlers this regularTable) r c)
              ''psp-align-left''
            \<and> \<not> has_class (cell_at (table_cell_style_listener handlers this regularTable) r c)
              ''psp-align-right'')"
  using assms
  by (simp add: listener_cell_at style_cell_align_right style_cell_align_left
      is_numeric_type_def)

theorem C3_alignment_markers_witness:
  "has_class (cell_at (table_cell_style_listener sample_handlers sample_types sample_table) 0 1)
       ''psp-align-right''
   \<and> \<not> has_class (cell_at (table_cell_style_listener sample_handlers sample_types sample_table) 0 1)
       ''psp-align-left''
   \<and> tagName (cell_at sample_table 0 0) = ''TH''
   \<and> has_class (cell_at (table_cell_style_listener sample_handlers sample_types sample_table) 0 0)
       ''psp-align-left''
   \<and> \<not> has_class (cell_at (table_cell_style_listener sample_handlers sample_types sample_table) 0 0)
       ''psp-align-right''"
proof -
  have r: "0 < length (body_rows sample_table)" by (simp add: sample_table_def)
  have c0: "0 < length (body_rows sample_table ! 0)" by (simp add: sample_table_def)
  have c1: "1 < length (body_rows sample_table ! 0)" by (simp add: sample_table_def)
  note a = C3_alignment_markers [OF r c0, of sample_handlers sample_types]
  note b = C3_alignment_markers [OF r c1, of sample_handlers sample_types]
  show ?thesis using a b by (simp add: sample_defs)
qed

text \<open>
  Claim C4. Unknown-type reset: for a cell whose resolved type is none of \<open>integer\<close>,
  \<open>float\<close>, \<open>boolean\<close>, \<open>string\<close>, \<open>date\<close>, \<open>datetime\<close>, the listener leaves both the
  background color and the foreground color empty; a type lookup whose index falls
  outside the column-type or row-header-type table yields no type (and no error), which
  is such an unknown type. For a header cell the row-header handler runs after the
  reset; it is taken to leave the two colors alone.
\<close>

theorem C4_unknown_type_reset:
  assumes "r < length (body_rows regularTable)"
    and "c < length (body_rows regularTable ! r)"
    and "get_psp_type this (meta (cell_at regularTable r c)) \<notin> known_types
         \<or> type_index_out_of_range this (meta (cell_at regularTable r c))"
    and "tagName (cell_at regularTable r c) = ''TH'' \<Longrightarrow>
           keeps_colors (cell_style_row_header handlers (layout_of regularTable))"
  shows "(type_index_out_of_range this (meta (cell_at regularTable r c)) \<longrightarrow>
            get_psp_type this (meta (cell_at regularTable r c)) = None)
         \<and> backgroundColor
             (style (cell_at (table_cell_style_listener handlers this regularTable) r c)) = ''''
         \<and> color
             (style (cell_at (table_cell_style_listener handlers this regularTable) r c)) = ''''"
proof -
  let ?m = "meta (cell_at regularTable r c)"
  have u: "get_psp_type this ?m \<notin> known_types"
    using assms(3) out_of_range_unknown [of this ?m] by (auto simp: known_types_def)
  show ?thesis
    using style_cell_unknown [OF u assms(4)] assms(1,2)
    by (simp add: listener_cell_at out_of_range_unknown)
qed

theorem C4_unknown_type_reset_witness:
  "type_index_out_of_range sample_types (meta (cell_at sample_table 0 3))
   \<and> backgroundColor (style (cell_at sample_table 0 3)) = ''#123456''
   \<and> backgroundColor
       (style (cell_at (table_cell_style_listener sample_handlers sample_types sample_table) 0 3))
     = ''''
   \<and> color
       (style (cell_at (table_cell_style_listener sample_handlers sample_types sample_table) 0 3))
     = ''''
   \<and> tagName (cell_at sample_table 1 0) = ''TH''
   \<and> type_index_out_of_range sample_types (meta (cell_at sample_table 1 0))
   \<and> backgroundColor
       (style (cell_at (table_cell_style_listener sample_handlers sample_types sample_table) 1 0))
     = ''''
   \<and> color
       (style (cell_at (table_cell_style_listener sample_handlers sample_types sample_table) 1 0))
     = ''''"
proof -
  have r0: "0 < length (body_rows sample_table)" by (simp add: sample_table_def)
  have r1: "1 < length (body_rows sample_table)" by (simp add: sample_table_def)
  have c3: "3 < length (body_rows sample_table ! 0)" by (simp add: sample_table_def)
  have c0: "0 < length (body_rows sample_table ! 1)" by (simp add: sample_table_def)
  have o3: "type_index_out_of_range sample_types (meta (cell_at sample_table 0 3))"
    by (simp add: sample_defs type_index_out_of_range_def)
  have o0: "type_index_out_of_range sample_types (meta (cell_at sample_table 1 0))"
    by (simp add: sample_defs type_index_out_of_range_def)
  note a = C4_unknown_type_reset [OF r0 c3 disjI2 [OF o3] sample_row_header_keeps_colors]
  note b = C4_unknown_type_reset [OF r1 c0 disjI2 [OF o0] sample_row_header_keeps_colors]
  show ?thesis using a b o3 o0 by (simp add: sample_defs)
qed

text \<open>
  Claim C5. Bar-mode marker: after a pass, a cell carries \<open>psp-color-mode-bar\<close> if and
  only if its resolved type is \<open>integer\<close> or \<open>float\<close> and the plugin configuration found
  under the cell's column name has the field \<open>number_fg_mode\<close> equal to \<open>"bar"\<close>; on a
  cell of type \<open>string\<close> the marker is inactive whatever the configuration.
\<close>

theorem C5_bar_mode_marker:
  assumes "r < length (body_rows regularTable)"
    and "c < length (body_rows regularTable ! r)"
  shows "(has_class (cell_at (table_cell_style_listener handlers this regularTable) r c)
              ''psp-color-mode-bar''
          = ((get_psp_type this (meta (cell_at regularTable r c)) = Some ''integer''
              \<or> get_psp_type this (meta (cell_at regularTable r c)) = Some ''float'')
             \<and> number_fg_mode_is_bar
                 (plugin_for (plugins_of regularTable)
                    (column_name_of (meta (cell_at regularTable r c))))))
       \<and> (get_psp_type this (meta (cell_at regularTable r c)) = Some ''string'' \<longrightarrow>
            \<not> has_class (cell_at (table_cell_style_listener handlers this regularTable) r c)
               ''psp-color-mode-bar'')"
  using assms
  by (auto simp add: listener_cell_at style_cell_bar is_numeric_type_def)

theorem C5_bar_mode_marker_witness:
  "has_class (cell_at (table_cell_style_listener sample_handlers sample_types sample_table) 0 1)
       ''psp-color-mode-bar''
   \<and> get_psp_type sample_types (meta (cell_at sample_table 0 1)) = Some ''integer''
   \<and> plugin_for (plugins_of sample_table) (column_name_of (meta (cell_at sample_table 0 1)))
       = Some [(''number_fg_mode'', Prim (PStr ''bar''))]
   \<and> \<not> has_class (cell_at (table_cell_style_listener sample_handlers sample_types sample_table) 0 2)
       ''psp-color-mode-bar''"
proof -
  have r: "0 < length (body_rows sample_table)" by (simp add: sample_table_def)
  have c1: "1 < length (body_rows sample_table ! 0)" by (simp add: sample_table_def)
  have c2: "2 < length (body_rows sample_table ! 0)" by (simp add: sample_table_def)
  note a = C5_bar_mode_marker [OF r c1, of sample_handlers sample_types]
  note b = C5_bar_mode_marker [OF r c2, of sample_handlers sample_types]
  show ?thesis using a b
    by (simp add: sample_defs plugin_for_def plugins_of_def column_name_of_def property_key_def
        number_fg_mode_is_bar_def)
qed

section \<open>Properties of the row-selection listener\<close>

lemma key_match_reduce_all:
  "key_match_reduce xs id' i agg = (agg \<and> (\<forall>k < length xs. xs ! k = js_elem id' (i + k)))"
proof (induction xs arbitrary: i agg)
  case Nil
  show ?case by simp
next
  case (Cons x xs)
  have "(\<forall>k < Suc (length xs). (x # xs) ! k = js_elem id' (i + k))
        = (x = js_elem id' i \<and> (\<forall>k < length xs. xs ! k = js_elem id' (Suc i + k)))"
    by (auto simp: less_Suc_eq_0_disj)
  then show ?case by (simp add: Cons.IH)
qed

text \<open>With equal lengths, the reduction compares the two key sequences element by element.\<close>

lemma is_deselect_iff:
  "is_deselect_of (Some sel) (Some idv) = Inr (sel = idv)"
proof -
  have "(length idv = length sel \<and> key_match_reduce sel idv 0 True) = (sel = idv)"
    by (auto simp: key_match_reduce_all js_elem_def list_eq_iff_nth_eq)
  then show ?thesis by (simp add: is_deselect_of_def Let_def)
qed

lemma is_deselect_none: "is_deselect_of None idv = Inr False"
  by (simp add: is_deselect_of_def)

text \<open>
  Claim C6, as stated, fails when the viewer lacks the \<open>selectable\<close> attribute: a primary
  click on an unselected data row then stores nothing and dispatches nothing.
\<close>

theorem C6_not_selectable_counterexample:
  "which sample_click = 1
   \<and> map_option meta_y (target_meta sample_click) = Some (Some 0)
   \<and> selected_of sample_select_state 0 = None
   \<and> selectionListener sample_getCellConfig sample_ids 0 False sample_select_state sample_click
       = Inr sample_select_state
   \<and> dispatched sample_select_state = []"
  by (simp add: selectionListener_def sample_click_def sample_select_state_def sample_meta_def
      selected_of_def no_selection_def)

text \<open>
  Claim C6, amended. On a viewer that has the \<open>selectable\<close> attribute, for an event not
  yet handled: a primary-button click carrying the metadata of a data row (row index at
  least 0) whose key sequence is not the stored selection stores that key sequence,
  requests a redraw, marks the event handled and dispatches \<open>perspective-select\<close> with
  \<open>selected: true\<close> and the filter of the clicked cell; if the key sequence equals the
  stored selection, the stored selection is removed and the event is dispatched with
  \<open>selected: false\<close> and an empty filter. A click with another button returns without
  any change, whatever the viewer.
\<close>

theorem C6_row_selection_toggle:
  "(which event \<noteq> 1 \<longrightarrow>
      selectionListener getCellConfig ids regularTable selectable s event = Inr s)
   \<and> (selectable \<and> \<not> handled s \<and> which event = 1 \<and> target_meta event = Some m
        \<and> meta_y m = Some row \<and> 0 \<le> row
        \<and> js_index ids (Some (row - meta_y0 m)) = Some key \<longrightarrow>
      selectionListener getCellConfig ids regularTable selectable s event
        = (if selected_of s regularTable = Some key
           then Inr (s\<lparr>selected_rows_map := (selected_rows_map s)(regularTable := None),
                       draws := Suc (draws s), handled := True,
                       dispatched := dispatched s @ [perspective_select False []]\<rparr>)
           else Inr (s\<lparr>selected_rows_map := (selected_rows_map s)(regularTable \<mapsto> Some key),
                       draws := Suc (draws s), handled := True,
                       dispatched := dispatched s
                         @ [perspective_select True (getCellConfig (meta_y m) (meta_x m))]\<rparr>)))"
proof (intro conjI impI)
  assume "which event \<noteq> 1"
  then show "selectionListener getCellConfig ids regularTable selectable s event = Inr s"
    by (simp add: selectionListener_def)
next
  assume a: "selectable \<and> \<not> handled s \<and> which event = 1 \<and> target_meta event = Some m
        \<and> meta_y m = Some row \<and> 0 \<le> row
        \<and> js_index ids (Some (row - meta_y0 m)) = Some key"
  show "selectionListener getCellConfig ids regularTable selectable s event
        = (if selected_of s regularTable = Some key
           then Inr (s\<lparr>selected_rows_map := (selected_rows_map s)(regularTable := None),
                       draws := Suc (draws s), handled := True,
                       dispatched := dispatched s @ [perspective_select False []]\<rparr>)
           else Inr (s\<lparr>selected_rows_map := (selected_rows_map s)(regularTable \<mapsto> Some key),
                       draws := Suc (draws s), handled := True,
                       dispatched := dispatched s
                         @ [perspective_select True (getCellConfig (meta_y m) (meta_x m))]\<rparr>))"
  proof (cases "selected_of s regularTable")
    case None
    with a show ?thesis
      by (simp add: selectionListener_def Let_def js_ge0_def is_deselect_none)
  next
    case (Some sel)
    with a show ?thesis
      by (simp add: selectionListener_def Let_def js_ge0_def is_deselect_iff)
  qed
qed

theorem C6_row_selection_toggle_witness:
  "selectionListener sample_getCellConfig sample_ids 0 True sample_select_state sample_click
     = Inr (sample_select_state
         \<lparr>selected_rows_map := no_selection(0 \<mapsto> Some [PStr ''a'']), draws := 1, handled := True,
          dispatched := [perspective_select True [(''name'', ''=='', PStr ''a'')]]\<rparr>)
   \<and> selectionListener sample_getCellConfig sample_ids 0 True
       (sample_select_state\<lparr>selected_rows_map := no_selection(0 \<mapsto> Some [PStr ''a''])\<rparr>)
       sample_click
     = Inr (sample_select_state
         \<lparr>selected_rows_map := no_selection, draws := 1, handled := True,
          dispatched := [perspective_select False []]\<rparr>)
   \<and> selectionListener sample_getCellConfig sample_ids 0 True sample_select_state
       (sample_click\<lparr>which := 3\<rparr>)
     = Inr sample_select_state"
proof -
  let ?m = "sample_meta (Some 0) None (Some [''price'']) (PNum 5)"
  let ?s1 = "sample_select_state\<lparr>selected_rows_map := no_selection(0 \<mapsto> Some [PStr ''a''])\<rparr>"
  note a = C6_row_selection_toggle [of sample_click sample_getCellConfig sample_ids 0 True
      sample_select_state ?m 0 "[PStr ''a'']"]
  note b = C6_row_selection_toggle [of sample_click sample_getCellConfig sample_ids 0 True
      ?s1 ?m 0 "[PStr ''a'']"]
  note c = C6_row_selection_toggle [of "sample_click\<lparr>which := 3\<rparr>" sample_getCellConfig
      sample_ids 0 True sample_select_state ?m 0 "[PStr ''a'']"]
  have 1: "selectionListener sample_getCellConfig sample_ids 0 True sample_select_state sample_click
     = Inr (sample_select_state
         \<lparr>selected_rows_map := no_selection(0 \<mapsto> Some [PStr ''a'']), draws := 1, handled := True,
          dispatched := [perspective_select True [(''name'', ''=='', PStr ''a'')]]\<rparr>)"
    using a
    by (simp add: sample_click_def sample_select_state_def sample_meta_def sample_ids_def
        js_index_def selected_of_def no_selection_def sample_getCellConfig_def)
  have 2: "selectionListener sample_getCellConfig sample_ids 0 True ?s1 sample_click
     = Inr (sample_select_state
         \<lparr>selected_rows_map := no_selection, draws := 1, handled := True,
          dispatched := [perspective_select False []]\<rparr>)"
    using b
    by (simp add: sample_click_def sample_select_state_def sample_meta_def sample_ids_def
        js_index_def selected_of_def fun_upd_idem no_selection_def)
  have 3: "selectionListener sample_getCellConfig sample_ids 0 True sample_select_state
       (sample_click\<lparr>which := 3\<rparr>) = Inr sample_select_state"
    using c by (simp add: sample_click_def)
  from 1 2 3 show ?thesis by simp
qed

section \<open>Properties of \<open>save\<close>\<close>

subsection \<open>The store\<close>

lemma alloc_obj_fst [simp]: "fst (alloc_obj c st) = length (objs st)"
  by (simp add: alloc_obj_def)

lemma alloc_obj_snd [simp]: "snd (alloc_obj c st) = st\<lparr>objs := objs st @ [c]\<rparr>"
  by (simp add: alloc_obj_def)

lemma index0_arrs: "arrs st' = arrs st \<Longrightarrow> index0 st' v = index0 st v"
  by (cases "(st, v)" rule: index0.cases) (simp_all add: arr_at_def)

lemma index0_objs_update [simp]: "index0 (st\<lparr>objs := xs\<rparr>) v = index0 st v"
  by (rule index0_arrs) simp

lemma get_prop_new [simp]:
  "get_prop (st\<lparr>objs := objs st @ [c]\<rparr>) (length (objs st)) key = lookup_prop c key"
  by (simp add: get_prop_def obj_at_def)

lemma set_prop_new [simp]:
  "set_prop (length (objs st)) key v (st\<lparr>objs := objs st @ [c]\<rparr>)
     = st\<lparr>objs := objs st @ [AList.update key v c]\<rparr>"
  by (simp add: set_prop_def obj_at_def)

lemma save_column_eq:
  "save_column plugins (columns, st) col
     = (AList.update col (length (objs st)) columns,
        st\<lparr>objs := objs st @ [reduce_colors st (stored_config plugins st col)]\<rparr>)"
  by (simp add: save_column_def reduce_colors_def stored_config_def Let_def)

lemma obj_at_append_old: "a < length (objs st) \<Longrightarrow> obj_at (st\<lparr>objs := objs st @ [c]\<rparr>) a = obj_at st a"
  by (simp add: obj_at_def nth_append)

lemma obj_at_append_new [simp]: "obj_at (st\<lparr>objs := objs st @ [c]\<rparr>) (length (objs st)) = c"
  by (simp add: obj_at_def)

lemma obj_at_set_prop:
  "obj_at (set_prop a key v st) b
     = (if b = a \<and> a < length (objs st) then AList.update key v (obj_at st a) else obj_at st b)"
  by (simp add: set_prop_def obj_at_def)

lemma view_Nil [simp]: "view st [] = []"
  by (simp add: view_def)

lemma view_Cons [simp]: "view st ((col, a) # columns) = (col, obj_at st a) # view st columns"
  by (simp add: view_def)

lemma map_of_view: "map_of (view st columns) col = map_option (obj_at st) (map_of columns col)"
  by (induction columns) (auto simp: view_def)

lemma view_update:
  "view st (AList.update col a columns) = AList.update col (obj_at st a) (view st columns)"
  by (induction columns) (auto simp: view_def)

lemma view_cong:
  "(\<And>a. a \<in> snd ` set columns \<Longrightarrow> obj_at st' a = obj_at st a) \<Longrightarrow> view st' columns = view st columns"
  by (induction columns) (auto simp: view_def)

lemma update_addresses: "snd ` set (AList.update col a columns) \<subseteq> insert a (snd ` set columns)"
  by (induction columns) auto

lemma update_distinct_snd:
  "distinct (map snd columns) \<Longrightarrow> a \<notin> snd ` set columns \<Longrightarrow>
     distinct (map snd (AList.update col a columns))"
proof (induction columns)
  case Nil
  show ?case by simp
next
  case (Cons p columns)
  have "snd ` set (AList.update col a columns) \<subseteq> insert a (snd ` set columns)"
    by (rule update_addresses)
  with Cons show ?case by (cases p) (auto simp: image_iff)
qed

text \<open>Writing a property of the entry of \<open>col\<close> changes that entry and no other.\<close>

lemma view_set_prop:
  assumes "distinct (map snd columns)" and "map_of columns col = Some a"
    and "a < length (objs st)"
  shows "view (set_prop a key v st) columns
           = AList.update col (AList.update key v (obj_at st a)) (view st columns)"
  using assms
proof (induction columns)
  case Nil
  then show ?case by simp
next
  case (Cons p columns)
  obtain c0 a0 where p: "p = (c0, a0)" by (cases p)
  show ?case
  proof (cases "c0 = col")
    case True
    with Cons.prems p have a0: "a0 = a" by simp
    from Cons.prems p a0 have "a \<notin> snd ` set columns" by (auto simp: image_iff)
    then have "view (set_prop a key v st) columns = view st columns"
      by (intro view_cong) (auto simp: obj_at_set_prop)
    with True p a0 Cons.prems show ?thesis by (simp add: obj_at_set_prop)
  next
    case False
    with Cons.prems p have m: "map_of columns col = Some a" by simp
    then have "(col, a) \<in> set columns" by (rule map_of_SomeD)
    then have "a \<in> snd ` set columns" by force
    with Cons.prems p have "a0 \<noteq> a" by auto
    moreover from Cons.prems p have "distinct (map snd columns)" by simp
    ultimately show ?thesis
      using False p Cons.IH m Cons.prems(3) by (simp add: obj_at_set_prop)
  qed
qed

lemma save_override_eq:
  "save_override ovs (columns, st) col
     = (case map_of columns col of
          None \<Rightarrow> (AList.update col (length (objs st)) columns,
                    st\<lparr>objs := objs st @ [[(''column_size_override'', Prim (override_value ovs col))]]\<rparr>)
        | Some a \<Rightarrow> (columns, set_prop a ''column_size_override'' (Prim (override_value ovs col)) st))"
  by (simp add: save_override_def override_value_def Let_def split: option.splits)

subsection \<open>The two loops, read through the store\<close>

lemma grown_from_refl: "grown_from st0 ([], st0)"
  by (simp add: grown_from_def)

lemma obj_at_grown:
  assumes "grown_from st0 (columns, st)" and "a < length (objs st0)"
  shows "obj_at st a = obj_at st0 a"
proof -
  from assms have t: "take (length (objs st0)) (objs st) = objs st0"
    and l: "length (objs st0) \<le> length (objs st)"
    by (simp_all add: grown_from_def)
  from assms(2) have "take (length (objs st0)) (objs st) ! a = objs st ! a" by simp
  with t have "objs st ! a = objs st0 ! a" by simp
  with assms(2) l show ?thesis by (simp add: obj_at_def)
qed

lemma update_addresses_ball:
  assumes "\<forall>p \<in> set columns. P (snd p)" and "P v"
  shows "\<forall>p \<in> set (AList.update col v columns). P (snd p)"
  using assms by (induction columns) auto



lemma save_column_grown:
  assumes "grown_from st0 (columns, st)"
  shows "grown_from st0 (save_column plugins (columns, st) col)"
proof -
  let ?n = "length (objs st)"
  from assms have fresh: "?n \<notin> snd ` set columns" by (auto simp: grown_from_def)
  from assms have d: "distinct (map snd (AList.update col ?n columns))"
    by (intro update_distinct_snd fresh) (simp add: grown_from_def)
  from assms have "\<forall>p \<in> set columns. length (objs st0) \<le> snd p \<and> snd p < Suc ?n"
    by (auto simp: grown_from_def)
  moreover from assms have "length (objs st0) \<le> ?n \<and> ?n < Suc ?n" by (simp add: grown_from_def)
  ultimately have b: "\<forall>p \<in> set (AList.update col ?n columns).
      length (objs st0) \<le> snd p \<and> snd p < Suc ?n"
    by (rule update_addresses_ball)
  from assms d b show ?thesis
    by (simp add: save_column_eq grown_from_def)
qed


lemma save_override_grown:
  assumes "grown_from st0 (columns, st)"
  shows "grown_from st0 (save_override ovs (columns, st) col)"
proof (cases "map_of columns col")
  case None
  let ?n = "length (objs st)"
  from assms have fresh: "?n \<notin> snd ` set columns" by (auto simp: grown_from_def)
  from assms have d: "distinct (map snd (AList.update col ?n columns))"
    by (intro update_distinct_snd fresh) (simp add: grown_from_def)
  from assms have "\<forall>p \<in> set columns. length (objs st0) \<le> snd p \<and> snd p < Suc ?n"
    by (auto simp: grown_from_def)
  moreover from assms have "length (objs st0) \<le> ?n \<and> ?n < Suc ?n" by (simp add: grown_from_def)
  ultimately have b: "\<forall>p \<in> set (AList.update col ?n columns).
      length (objs st0) \<le> snd p \<and> snd p < Suc ?n"
    by (rule update_addresses_ball)
  from assms d b None show ?thesis
    by (simp add: save_override_eq grown_from_def)
next
  case (Some a)
  then have "(col, a) \<in> set columns" by (rule map_of_SomeD)
  then have "a \<in> snd ` set columns" by force
  with assms have "length (objs st0) \<le> a" by (auto simp: grown_from_def)
  with assms Some show ?thesis
    by (auto simp: save_override_eq grown_from_def set_prop_def)
qed

lemma save_override_view:
  assumes "grown_from st0 (columns, st)"
  shows "view (snd (save_override ovs (columns, st) col)) (fst (save_override ovs (columns, st) col))
           = pure_override ovs (view st columns) col"
proof (cases "map_of columns col")
  case None
  let ?c = "[(''column_size_override'', Prim (override_value ovs col))]"
  let ?st' = "st\<lparr>objs := objs st @ [?c]\<rparr>"
  have "view ?st' columns = view st columns"
  proof (rule view_cong)
    fix a assume "a \<in> snd ` set columns"
    with assms(1) have "a < length (objs st)" by (auto simp: grown_from_def)
    then show "obj_at ?st' a = obj_at st a" by (rule obj_at_append_old)
  qed
  with None show ?thesis
    by (simp add: save_override_eq view_update pure_override_def map_of_view)
next
  case (Some a)
  then have "(col, a) \<in> set columns" by (rule map_of_SomeD)
  then have "a \<in> snd ` set columns" by force
  with assms have lt: "a < length (objs st)" by (auto simp: grown_from_def)
  from assms have d: "distinct (map snd columns)" by (simp add: grown_from_def)
  from Some show ?thesis
    by (simp add: save_override_eq view_set_prop [OF d Some lt] pure_override_def map_of_view)
qed


lemma fold_save_column_grown:
  "grown_from st0 tok \<Longrightarrow> grown_from st0 (foldl (save_column plugins) tok cols)"
proof (induction cols arbitrary: tok)
  case Nil
  then show ?case by simp
next
  case (Cons col cols)
  obtain columns st where tok: "tok = (columns, st)" by (cases tok)
  with Cons.prems have "grown_from st0 (save_column plugins tok col)"
    by (simp add: save_column_grown)
  from Cons.IH [OF this] show ?case by simp
qed

lemma fold_save_override:
  "grown_from st0 tok \<Longrightarrow>
     grown_from st0 (foldl (save_override ovs) tok cols)
     \<and> view (snd (foldl (save_override ovs) tok cols)) (fst (foldl (save_override ovs) tok cols))
         = foldl (pure_override ovs) (view (snd tok) (fst tok)) cols"
proof (induction cols arbitrary: tok)
  case Nil
  then show ?case by simp
next
  case (Cons col cols)
  obtain columns st where tok: "tok = (columns, st)" by (cases tok)
  from Cons.prems tok have g: "grown_from st0 (save_override ovs tok col)"
    by (simp add: save_override_grown)
  from Cons.IH [OF g] show ?case
    using save_override_view [of st0 columns st ovs col] Cons.prems tok by simp
qed

lemma build_columns_grown: "grown_from st0 (build_columns overrides dg st0)"
proof -
  let ?tok1 = "foldl (save_column (plugin_configs dg)) ([], st0) (map fst (plugin_configs dg))"
  have "grown_from st0 ?tok1" by (rule fold_save_column_grown) (rule grown_from_refl)
  from fold_save_override [OF this] show ?thesis
    by (simp add: build_columns_def Let_def)
qed


subsection \<open>The returned token\<close>






















subsection \<open>The claims about \<open>save\<close>\<close>




text \<open>
  Claim C10. \<open>save\<close> never changes the stored plugin configuration: every object that
  exists before the call, in particular every per-column configuration object, has the
  same properties after it, and every array (the color ramps) has the same elements.
  The entries of \<open>token.columns\<close> are objects allocated by the call (the shallow copies
  and the default entries), never a stored configuration; the token returned is the
  JSON text of that structure read back, a value that holds no address of the store.
\<close>

theorem C10_save_keeps_stored_configuration:
  "(a < length (objs st) \<longrightarrow> obj_at (snd (save f this st)) a = obj_at st a)
   \<and> arrs (snd (save f this st)) = arrs st
   \<and> (regular_table this = Some dg \<longrightarrow>
        list_all (\<lambda>ca. length (objs st) \<le> snd ca) (fst (build_columns (f this) dg st))
        \<and> fst (save f this st)
            = JsObj [(''columns'',
                      JsObj (json_of_columns (snd (build_columns (f this) dg st))
                               (fst (build_columns (f this) dg st)))),
                     (''scroll_lock'', JsBool (truthy_prim (is_scroll_lock this))),
                     (''editable'', JsBool (truthy_prim (is_edit_mode this)))])"
proof (cases "regular_table this")
  case None
  then show ?thesis by (simp add: save_def)
next
  case (Some d)
  let ?tok = "build_columns (f this) d st"
  have g: "grown_from st (fst ?tok, snd ?tok)" using build_columns_grown [of st "f this" d] by simp
  from Some have s: "snd (save f this st) = snd ?tok" by (simp add: save_def Let_def)
  have 1: "a < length (objs st) \<longrightarrow> obj_at (snd (save f this st)) a = obj_at st a"
    using obj_at_grown [OF g] s by simp
  from g s have 2: "arrs (snd (save f this st)) = arrs st" by (simp add: grown_from_def)
  from g have 3: "list_all (\<lambda>ca. length (objs st) \<le> snd ca) (fst ?tok)"
    by (auto simp: grown_from_def list_all_iff)
  from 1 2 3 Some show ?thesis by (auto simp: save_def Let_def)
qed

theorem C10_save_keeps_stored_configuration_witness:
  "obj_at (snd (save sample_overrides sample_plugin sample_store)) 0
     = [(''number_fg_mode'', Prim (PStr ''color'')),
        (''pos_fg_color'', ArrRef 0), (''neg_fg_color'', ArrRef 1)]
   \<and> arrs (snd (save sample_overrides sample_plugin sample_store)) = arrs sample_store
   \<and> list_all (\<lambda>ca. 3 \<le> snd ca)
       (fst (build_columns (sample_overrides sample_plugin)
               \<lparr> private_plugin = Some [(''price'', 0), (''name'', 1), (''delta'', 2)] \<rparr>
               sample_store))"
proof -
  let ?dg = "\<lparr> private_plugin = Some [(''price'', 0), (''name'', 1), (''delta'', 2)] \<rparr>"
  have dg: "regular_table sample_plugin = Some ?dg" by (simp add: sample_plugin_def)
  have l: "length (objs sample_store) = 3" by (simp add: sample_store_def)
  have o: "obj_at sample_store 0 = [(''number_fg_mode'', Prim (PStr ''color'')),
        (''pos_fg_color'', ArrRef 0), (''neg_fg_color'', ArrRef 1)]"
    by (simp add: sample_store_def obj_at_def)
  from C10_save_keeps_stored_configuration [of 0 sample_store sample_overrides sample_plugin ?dg]
    dg l o show ?thesis by simp
qed

end
